theory Spec2Isabelle
  imports Main
begin

section \<open>The water tracker of \<^verbatim>\<open>src/App.js\<close>\<close>

text \<open>
  The component of \<^verbatim>\<open>App.js\<close> keeps five pieces of state (\<^verbatim>\<open>useState\<close>, lines 54-58):
  \<^verbatim>\<open>remainingMl\<close>, \<^verbatim>\<open>streak\<close>, \<^verbatim>\<open>lastDate\<close>, \<^verbatim>\<open>completedToday\<close> and the text of the input
  field, \<^verbatim>\<open>inputValue\<close>. The first four are the object that is stored and restored.

  JavaScript numbers are doubles. The numbers of this program are integers (a goal of 2000 ml,
  a count of days, the result of \<^verbatim>\<open>parseInt\<close>), and they are modelled as unbounded \<open>int\<close>:
  the model is exact as long as every value stays below \<open>2 ^ 53\<close> in absolute value.
  A JavaScript string is a sequence of 16-bit code units, modelled as a list of naturals.
\<close>

subsection \<open>Strings\<close>

type_synonym js_string = "nat list"

text \<open>The code units of an ASCII literal.\<close>

definition js :: "string \<Rightarrow> js_string" where
  "js cs = map of_char cs"

subsection \<open>Constants and helpers (lines 12-27)\<close>

definition DAILY_GOAL_ML :: int where
  "DAILY_GOAL_ML = 2000"

text \<open>\<^verbatim>\<open>const clamp = (value, min, max) => Math.min(Math.max(value, min), max);\<close>\<close>

definition clamp :: "int \<Rightarrow> int \<Rightarrow> int \<Rightarrow> int" where
  "clamp v lo hi = min (max v lo) hi"

text \<open>
  \<^verbatim>\<open>Number.parseInt(value, 10)\<close> on a string, after ECMAScript: leading white space and
  line terminators are trimmed, one sign is read, then the longest run of decimal digits;
  with no digit the result is \<^verbatim>\<open>NaN\<close> (\<open>None\<close>). Whatever follows the digits is ignored.
\<close>

definition StrWhiteSpaceChar :: "nat \<Rightarrow> bool" where
  "StrWhiteSpaceChar c \<longleftrightarrow>
     c = 9 \<or> c = 10 \<or> c = 11 \<or> c = 12 \<or> c = 13 \<or> c = 32 \<or> c = 160 \<or> c = 5760
     \<or> (8192 \<le> c \<and> c \<le> 8202) \<or> c = 8232 \<or> c = 8233 \<or> c = 8239 \<or> c = 8287
     \<or> c = 12288 \<or> c = 65279"

definition isDigit :: "nat \<Rightarrow> bool" where
  "isDigit c \<longleftrightarrow> 48 \<le> c \<and> c \<le> 57"

definition mathInt :: "js_string \<Rightarrow> int" where
  "mathInt Z = foldl (\<lambda>acc c. 10 * acc + (int c - 48)) 0 Z"

definition parseInt :: "js_string \<Rightarrow> int option" where
  "parseInt inputString =
     (let S = dropWhile StrWhiteSpaceChar inputString;
          sign = (if S \<noteq> [] \<and> hd S = 45 then - 1 else 1);
          S' = (if S \<noteq> [] \<and> (hd S = 43 \<or> hd S = 45) then tl S else S);
          Z = takeWhile isDigit S'
      in if Z = [] then None else Some (sign * mathInt Z))"

text \<open>
  \<^verbatim>\<open>const parsed = Number.parseInt(value, 10); return Number.isNaN(parsed) ? 0 : parsed;\<close>
\<close>

definition parseIntSafe :: "js_string \<Rightarrow> int" where
  "parseIntSafe v = (case parseInt v of None \<Rightarrow> 0 | Some parsed \<Rightarrow> parsed)"

subsection \<open>The tracked state (lines 29-51)\<close>

record hydration_state =
  remainingMl :: int
  streak :: int
  lastDate :: js_string
  completedToday :: bool

text \<open>
  \<^verbatim>\<open>getDateKey()\<close> reads the clock; its result, the key of the current day, is the
  parameter \<open>today\<close> of every function that calls it.
\<close>

definition buildInitialState :: "js_string \<Rightarrow> hydration_state" where
  "buildInitialState today =
     \<lparr>remainingMl = DAILY_GOAL_ML, streak = 0, lastDate = today, completedToday = False\<rparr>"

definition hydrateStateForToday :: "js_string \<Rightarrow> hydration_state \<Rightarrow> hydration_state" where
  "hydrateStateForToday today state =
     (if lastDate state = today then state
      else
        let streak' = (if completedToday state then streak state + 1 else 0)
        in \<lparr>remainingMl = DAILY_GOAL_ML, streak = streak', lastDate = today,
            completedToday = False\<rparr>)"

subsection \<open>The component and its intake handler (lines 53-58, 98-120)\<close>

record component = hydration_state +
  inputValue :: js_string

text \<open>The object the component persists after every change (lines 99-104).\<close>

definition tracked :: "component \<Rightarrow> hydration_state" where
  "tracked c =
     \<lparr>remainingMl = remainingMl c, streak = streak c, lastDate = lastDate c,
      completedToday = completedToday c\<rparr>"

definition handleAddWater :: "component \<Rightarrow> component" where
  "handleAddWater c =
     (let amount = parseIntSafe (inputValue c) in
      if amount \<le> 0 then c
      else
        let nextRemaining = clamp (remainingMl c - amount) 0 DAILY_GOAL_ML;
            didComplete = (nextRemaining = 0)
        in c\<lparr>remainingMl := nextRemaining,
              completedToday := (didComplete \<or> completedToday c),
              inputValue := []\<rparr>)"

subsection \<open>The two transitions under the names of the specification\<close>

definition rollover :: "hydration_state \<Rightarrow> js_string \<Rightarrow> hydration_state" where
  "rollover state today = hydrateStateForToday today state"

text \<open>
  \<open>applyIntake s rawInput\<close>: the component holds \<open>s\<close>, the input field holds \<open>rawInput\<close>,
  the handler runs, and the tracked fields are read back.
\<close>

definition applyIntake :: "hydration_state \<Rightarrow> js_string \<Rightarrow> hydration_state" where
  "applyIntake s rawInput =
     tracked (handleAddWater
       \<lparr>remainingMl = remainingMl s, streak = streak s, lastDate = lastDate s,
        completedToday = completedToday s, inputValue = rawInput\<rparr>)"

subsection \<open>Sequences of transitions\<close>

datatype action = Rollover js_string | Intake js_string

fun step :: "hydration_state \<Rightarrow> action \<Rightarrow> hydration_state" where
  "step s (Rollover today) = rollover s today"
| "step s (Intake rawInput) = applyIntake s rawInput"

fun run :: "hydration_state \<Rightarrow> action list \<Rightarrow> hydration_state" where
  "run s [] = s"
| "run s (a # as) = run (step s a) as"

text \<open>
  The states the component has held since the most recent rollover (or since the start,
  when there was none), the newest first: \<open>s\<close> is the current state, \<open>seen\<close> the
  earlier ones of the same stretch.
\<close>

fun since_rollover ::
  "hydration_state \<Rightarrow> hydration_state list \<Rightarrow> action list \<Rightarrow> hydration_state list" where
  "since_rollover s seen [] = s # seen"
| "since_rollover s seen (Rollover today # as) = since_rollover (rollover s today) [] as"
| "since_rollover s seen (Intake rawInput # as) =
     since_rollover (applyIntake s rawInput) (s # seen) as"

subsection \<open>Values read back from storage (lines 71-96)\<close>

text \<open>
  \<^verbatim>\<open>JSON.parse\<close> returns any JSON value, and nothing in the program checks its shape, so
  the loading path is modelled on JavaScript values. Numbers are integers here as well,
  with \<^verbatim>\<open>NaN\<close> added (the value of \<^verbatim>\<open>undefined + 1\<close>). An object is the list of its own
  properties, each key once.
\<close>

datatype js_value =
    JUndefined | JNull | JBool bool | JNum int | JNaN | JStr js_string
  | JArr "js_value list" | JObj "(js_string \<times> js_value) list"

datatype js_error = StorageError | SyntaxError | TypeError

text \<open>
  Reading a property \<^verbatim>\<open>v.k\<close>, for the four names the program reads (none of them is
  inherited from a prototype): a \<^verbatim>\<open>TypeError\<close> on \<^verbatim>\<open>null\<close> and \<^verbatim>\<open>undefined\<close>, the own
  property of an object, \<^verbatim>\<open>undefined\<close> otherwise.
\<close>

fun getProp :: "js_value \<Rightarrow> js_string \<Rightarrow> js_error + js_value" where
  "getProp JUndefined k = Inl TypeError"
| "getProp JNull k = Inl TypeError"
| "getProp (JObj ps) k = Inr (case map_of ps k of None \<Rightarrow> JUndefined | Some v \<Rightarrow> v)"
| "getProp v k = Inr JUndefined"

fun ToBoolean :: "js_value \<Rightarrow> bool" where
  "ToBoolean JUndefined = False"
| "ToBoolean JNull = False"
| "ToBoolean (JBool b) = b"
| "ToBoolean (JNum n) = (n \<noteq> 0)"
| "ToBoolean JNaN = False"
| "ToBoolean (JStr s) = (s \<noteq> [])"
| "ToBoolean (JArr xs) = True"
| "ToBoolean (JObj ps) = True"

fun decimal :: "nat \<Rightarrow> js_string" where
  "decimal n = (if n < 10 then [48 + n] else decimal (n div 10) @ [48 + n mod 10])"

definition NumberToString :: "int \<Rightarrow> js_string" where
  "NumberToString n = (if n < 0 then 45 # decimal (nat (- n)) else decimal (nat n))"

text \<open>
  The string of a value. An array is joined with commas, \<^verbatim>\<open>null\<close> and \<^verbatim>\<open>undefined\<close>
  elements giving the empty string. A parsed object has no callable property of its own:
  one that carries a key \<^verbatim>\<open>toString\<close> hides \<^verbatim>\<open>Object.prototype.toString\<close> by a value
  that cannot be called and the conversion throws; any other object gives
  \<^verbatim>\<open>[object Object]\<close>.
\<close>

fun ToString :: "js_value \<Rightarrow> js_error + js_string"
  and join :: "js_value list \<Rightarrow> js_error + js_string" where
  "ToString JUndefined = Inr (js ''undefined'')"
| "ToString JNull = Inr (js ''null'')"
| "ToString (JBool b) = Inr (if b then js ''true'' else js ''false'')"
| "ToString (JNum n) = Inr (NumberToString n)"
| "ToString JNaN = Inr (js ''NaN'')"
| "ToString (JStr s) = Inr s"
| "ToString (JArr xs) = join xs"
| "ToString (JObj ps) =
     (if map_of ps (js ''toString'') \<noteq> None then Inl TypeError
      else Inr (js ''[object Object]''))"
| "join [] = Inr []"
| "join (x # xs) =
     (case (if x = JUndefined \<or> x = JNull then Inr [] else ToString x) of
        Inl e \<Rightarrow> Inl e
      | Inr a \<Rightarrow>
          if xs = [] then Inr a
          else (case join xs of Inl e \<Rightarrow> Inl e | Inr b \<Rightarrow> Inr (a @ 44 # b)))"

text \<open>
  \<^verbatim>\<open>v + 1\<close>: a string, an array or an object on the left makes it a concatenation with
  \<^verbatim>\<open>"1"\<close>; otherwise the left operand is converted to a number.
\<close>

fun plus_one :: "js_value \<Rightarrow> js_error + js_value" where
  "plus_one JUndefined = Inr JNaN"
| "plus_one JNull = Inr (JNum 1)"
| "plus_one (JBool b) = Inr (JNum (if b then 2 else 1))"
| "plus_one (JNum n) = Inr (JNum (n + 1))"
| "plus_one JNaN = Inr JNaN"
| "plus_one v = (case ToString v of Inl e \<Rightarrow> Inl e | Inr s \<Rightarrow> Inr (JStr (s @ [49])))"

text \<open>The object literal with the four properties of a tracked state.\<close>

definition object_of :: "hydration_state \<Rightarrow> js_value" where
  "object_of s =
     JObj [(js ''remainingMl'', JNum (remainingMl s)), (js ''streak'', JNum (streak s)),
           (js ''lastDate'', JStr (lastDate s)),
           (js ''completedToday'', JBool (completedToday s))]"

text \<open>\<^verbatim>\<open>hydrateStateForToday\<close> (lines 36-51) on whatever \<^verbatim>\<open>JSON.parse\<close> returned.\<close>

definition hydrateStateForToday_js :: "js_string \<Rightarrow> js_value \<Rightarrow> js_error + js_value" where
  "hydrateStateForToday_js today state =
     (case getProp state (js ''lastDate'') of
        Inl e \<Rightarrow> Inl e
      | Inr d \<Rightarrow>
          if d = JStr today then Inr state
          else
            (case getProp state (js ''completedToday'') of
               Inl e \<Rightarrow> Inl e
             | Inr c \<Rightarrow>
                 (case (if ToBoolean c
                        then (case getProp state (js ''streak'') of
                                Inl e \<Rightarrow> Inl e
                              | Inr k \<Rightarrow> plus_one k)
                        else Inr (JNum 0)) of
                    Inl e \<Rightarrow> Inl e
                  | Inr streak' \<Rightarrow>
                      Inr (JObj [(js ''remainingMl'', JNum DAILY_GOAL_ML),
                                 (js ''streak'', streak'),
                                 (js ''lastDate'', JStr today),
                                 (js ''completedToday'', JBool False)]))))"

text \<open>
  \<^verbatim>\<open>setStateFromStorage\<close> (lines 71-80) copies four properties into the component.
  \<^verbatim>\<open>persistState\<close> catches its own errors and changes nothing in memory.
\<close>

record component_values =
  remainingMl_value :: js_value
  streak_value :: js_value
  lastDate_value :: js_value
  completedToday_value :: js_value

definition setStateFromStorage :: "js_value \<Rightarrow> js_error + component_values" where
  "setStateFromStorage hydrated =
     (case getProp hydrated (js ''remainingMl'') of
        Inl e \<Rightarrow> Inl e
      | Inr r \<Rightarrow>
     (case getProp hydrated (js ''streak'') of
        Inl e \<Rightarrow> Inl e
      | Inr k \<Rightarrow>
     (case getProp hydrated (js ''lastDate'') of
        Inl e \<Rightarrow> Inl e
      | Inr d \<Rightarrow>
     (case getProp hydrated (js ''completedToday'') of
        Inl e \<Rightarrow> Inl e
      | Inr c \<Rightarrow>
          Inr \<lparr>remainingMl_value = r, streak_value = k, lastDate_value = d,
               completedToday_value = c\<rparr>))))"

text \<open>
  A stored text is told apart by what the program does with it: the empty text is falsy
  and never parsed; on any other text \<^verbatim>\<open>JSON.parse\<close> either throws a \<^verbatim>\<open>SyntaxError\<close> or
  returns a value.
\<close>

datatype stored_text = EmptyText | MalformedText | JsonText js_value

fun JSON_parse :: "stored_text \<Rightarrow> js_error + js_value" where
  "JSON_parse EmptyText = Inl SyntaxError"
| "JSON_parse MalformedText = Inl SyntaxError"
| "JSON_parse (JsonText v) = Inr v"

text \<open>
  \<^verbatim>\<open>loadState\<close> (lines 83-93). \<open>getItem\<close> is what \<^verbatim>\<open>await AsyncStorage.getItem(STORAGE_KEY)\<close>
  gives: a rejection, \<^verbatim>\<open>null\<close> (\<open>None\<close>) or the stored text. \<open>Inl\<close> as the result of
  \<open>loadState\<close> would be an exception that leaves the function.
\<close>

definition loadState ::
  "js_string \<Rightarrow> js_error + stored_text option \<Rightarrow> js_error + component_values" where
  "loadState today getItem =
     (let attempt =
        (case getItem of
           Inl e \<Rightarrow> Inl e
         | Inr stored \<Rightarrow>
             (case (case stored of
                      None \<Rightarrow> Inr (object_of (buildInitialState today))
                    | Some EmptyText \<Rightarrow> Inr (object_of (buildInitialState today))
                    | Some text \<Rightarrow> JSON_parse text) of
                Inl e \<Rightarrow> Inl e
              | Inr parsed \<Rightarrow>
                  (case hydrateStateForToday_js today parsed of
                     Inl e \<Rightarrow> Inl e
                   | Inr hydrated \<Rightarrow> setStateFromStorage hydrated)))
      in case attempt of
           Inl error \<Rightarrow> setStateFromStorage (object_of (buildInitialState today))
         | Inr loaded \<Rightarrow> Inr loaded)"

text \<open>The component's four values when it holds a tracked state.\<close>

definition values_of :: "hydration_state \<Rightarrow> component_values" where
  "values_of s =
     \<lparr>remainingMl_value = JNum (remainingMl s), streak_value = JNum (streak s),
      lastDate_value = JStr (lastDate s),
      completedToday_value = JBool (completedToday s)\<rparr>"

section \<open>Properties\<close>

subsection \<open>The two transitions, unfolded\<close>

lemma rollover_unfold:
  "rollover s today =
     (if lastDate s = today then s
      else \<lparr>remainingMl = DAILY_GOAL_ML,
            streak = (if completedToday s then streak s + 1 else 0),
            lastDate = today, completedToday = False\<rparr>)"
  by (simp add: rollover_def hydrateStateForToday_def)

lemma applyIntake_unfold:
  "applyIntake s rawInput =
     (if parseIntSafe rawInput \<le> 0 then s
      else s\<lparr>remainingMl := clamp (remainingMl s - parseIntSafe rawInput) 0 DAILY_GOAL_ML,
             completedToday :=
               (clamp (remainingMl s - parseIntSafe rawInput) 0 DAILY_GOAL_ML = 0
                \<or> completedToday s)\<rparr>)"
  by (simp add: applyIntake_def handleAddWater_def tracked_def Let_def)

subsection \<open>Rollover\<close>

text \<open>
  C1. New-day rollover: whenever \<open>today\<close> differs from the date of the state, however far
  apart the two dates are, the rollover returns the full goal, the streak plus one if the
  day was completed and zero otherwise, the new date and a cleared completion flag. The
  streak therefore grows by at most one per rollover.
\<close>

theorem rollover_new_day:
  "today \<noteq> lastDate s \<Longrightarrow>
     rollover s today =
       \<lparr>remainingMl = DAILY_GOAL_ML,
        streak = (if completedToday s then streak s + 1 else 0),
        lastDate = today, completedToday = False\<rparr>
     \<and> (streak (rollover s today) = streak s + 1 \<or> streak (rollover s today) = 0)
     \<and> (0 \<le> streak s \<longrightarrow> streak (rollover s today) \<le> streak s + 1)"
  by (auto simp: rollover_unfold)

theorem rollover_new_day_witness:
  "js ''2024-01-04'' \<noteq> js ''2024-01-01''
   \<and> rollover \<lparr>remainingMl = 0, streak = 3, lastDate = js ''2024-01-01'',
                 completedToday = True\<rparr> (js ''2024-01-04'')
       = \<lparr>remainingMl = 2000, streak = 4, lastDate = js ''2024-01-04'',
          completedToday = False\<rparr>"
  using rollover_new_day [of "js ''2024-01-04''"
      "\<lparr>remainingMl = 0, streak = 3, lastDate = js ''2024-01-01'', completedToday = True\<rparr>"]
  by (simp add: js_def DAILY_GOAL_ML_def)

text \<open>
  C5. Same-day no-op: rolling a state over to the date it already carries returns that
  state, equal in all four fields.
\<close>

theorem rollover_same_day: "rollover s (lastDate s) = s"
  by (simp add: rollover_def hydrateStateForToday_def)

text \<open>
  C6. Rollover is idempotent for a fixed date: a second rollover with the same date
  changes nothing.
\<close>

theorem rollover_idempotent: "rollover (rollover s d) d = rollover s d"
  by (simp add: rollover_unfold)

subsection \<open>Intake\<close>

text \<open>
  C9. Frame condition of the intake: whatever the input text is, the streak and the date
  of the state stay as they were.
\<close>

theorem intake_frame:
  "streak (applyIntake s rawInput) = streak s \<and> lastDate (applyIntake s rawInput) = lastDate s"
  by (simp add: applyIntake_unfold)

subsection \<open>Invariants of the reachable states\<close>

lemma clamp_bounds: "lo \<le> hi \<Longrightarrow> lo \<le> clamp v lo hi \<and> clamp v lo hi \<le> hi"
  by (simp add: clamp_def)

lemma step_bounds:
  assumes "0 \<le> remainingMl s \<and> remainingMl s \<le> DAILY_GOAL_ML"
  shows "0 \<le> remainingMl (step s a) \<and> remainingMl (step s a) \<le> DAILY_GOAL_ML"
proof (cases a)
  case (Rollover today)
  with assms show ?thesis by (simp add: rollover_unfold DAILY_GOAL_ML_def)
next
  case (Intake rawInput)
  have "(0::int) \<le> DAILY_GOAL_ML" by (simp add: DAILY_GOAL_ML_def)
  from clamp_bounds [OF this] Intake assms show ?thesis
    by (simp add: applyIntake_unfold)
qed

lemma run_bounds:
  "0 \<le> remainingMl s \<and> remainingMl s \<le> DAILY_GOAL_ML \<Longrightarrow>
   0 \<le> remainingMl (run s acts) \<and> remainingMl (run s acts) \<le> DAILY_GOAL_ML"
proof (induction acts arbitrary: s)
  case Nil
  then show ?case by simp
next
  case (Cons a acts)
  from Cons.IH [OF step_bounds [OF Cons.prems]] show ?case by simp
qed

text \<open>
  C2. Bounds invariant: from the initial state, after any finite sequence of rollovers
  and intakes, the remaining amount lies between 0 and the daily goal.
\<close>

theorem bounds_invariant:
  "0 \<le> remainingMl (run (buildInitialState today) acts)
   \<and> remainingMl (run (buildInitialState today) acts) \<le> DAILY_GOAL_ML"
  by (rule run_bounds) (simp add: buildInitialState_def DAILY_GOAL_ML_def)

lemma intake_keeps_zero:
  "remainingMl s = 0 \<Longrightarrow> remainingMl (applyIntake s rawInput) = 0"
  by (simp add: applyIntake_unfold clamp_def DAILY_GOAL_ML_def)

lemma intake_flag:
  "(completedToday s \<longleftrightarrow> remainingMl s = 0) \<Longrightarrow>
   (completedToday (applyIntake s rawInput) \<longleftrightarrow> remainingMl (applyIntake s rawInput) = 0)"
  by (auto simp: applyIntake_unfold clamp_def DAILY_GOAL_ML_def)

lemma rollover_flag:
  "(completedToday s \<longleftrightarrow> remainingMl s = 0) \<Longrightarrow>
   (completedToday (rollover s today) \<longleftrightarrow> remainingMl (rollover s today) = 0)"
  by (simp add: rollover_unfold DAILY_GOAL_ML_def)

lemma flag_history:
  assumes "completedToday s \<longleftrightarrow> remainingMl s = 0"
    and "\<forall>t\<in>set seen. remainingMl t = 0 \<longrightarrow> remainingMl s = 0"
  shows "(completedToday (run s acts) \<longleftrightarrow> remainingMl (run s acts) = 0)
    \<and> (completedToday (run s acts)
        \<longleftrightarrow> (\<exists>t\<in>set (since_rollover s seen acts). remainingMl t = 0))"
  using assms
proof (induction s seen acts rule: since_rollover.induct)
  case (1 s seen)
  then show ?case by auto
next
  case (2 s seen today as)
  have "completedToday (rollover s today) \<longleftrightarrow> remainingMl (rollover s today) = 0"
    using "2.prems"(1) by (rule rollover_flag)
  from "2.IH" [OF this] show ?case by auto
next
  case (3 s seen rawInput as)
  have a: "completedToday (applyIntake s rawInput)
             \<longleftrightarrow> remainingMl (applyIntake s rawInput) = 0"
    using "3.prems"(1) by (rule intake_flag)
  have b: "\<forall>t\<in>set (s # seen). remainingMl t = 0 \<longrightarrow> remainingMl (applyIntake s rawInput) = 0"
    using "3.prems"(2) by (auto intro: intake_keeps_zero)
  from "3.IH" [OF a b] show ?case by auto
qed

text \<open>
  C7. Completion flag: in every state reached from the initial state by rollovers and
  intakes, \<open>completedToday\<close> holds exactly when the remaining amount was 0 in one of the
  states held since the most recent rollover, which is exactly when it is 0 now; and an
  intake never clears the flag, in any state.
\<close>

theorem completion_flag_invariant:
  "(completedToday (run (buildInitialState today) acts)
      \<longleftrightarrow> (\<exists>t\<in>set (since_rollover (buildInitialState today) [] acts). remainingMl t = 0))
   \<and> (completedToday (run (buildInitialState today) acts)
      \<longleftrightarrow> remainingMl (run (buildInitialState today) acts) = 0)
   \<and> (completedToday s \<longrightarrow> completedToday (applyIntake s rawInput))"
proof -
  have "completedToday (buildInitialState today) \<longleftrightarrow> remainingMl (buildInitialState today) = 0"
    by (simp add: buildInitialState_def DAILY_GOAL_ML_def)
  from flag_history [OF this, of "[]" acts] show ?thesis
    by (auto simp: applyIntake_unfold)
qed

theorem completion_flag_invariant_witness:
  "completedToday (run (buildInitialState (js ''2024-01-01''))
       [Intake (js ''1500''), Intake (js ''600''), Rollover (js ''2024-01-01''),
        Intake (js ''abc'')])
   \<and> (\<exists>t\<in>set (since_rollover (buildInitialState (js ''2024-01-01'')) []
       [Intake (js ''1500''), Intake (js ''600''), Rollover (js ''2024-01-01''),
        Intake (js ''abc'')]).
        remainingMl t = 0)
   \<and> completedToday (applyIntake \<lparr>remainingMl = 0, streak = 1, lastDate = js ''2024-01-01'',
         completedToday = True\<rparr> (js ''250''))"
  using completion_flag_invariant [of "js ''2024-01-01''"
      "[Intake (js ''1500''), Intake (js ''600''), Rollover (js ''2024-01-01''),
        Intake (js ''abc'')]"
      "\<lparr>remainingMl = 0, streak = 1, lastDate = js ''2024-01-01'', completedToday = True\<rparr>"
      "js ''250''"]
  by (simp add: js_def DAILY_GOAL_ML_def buildInitialState_def applyIntake_unfold
      rollover_unfold parseIntSafe_def parseInt_def StrWhiteSpaceChar_def isDigit_def
      mathInt_def clamp_def)

subsection \<open>Intake and the input text\<close>

text \<open>
  C3. Positive intake: when the input text parses to a positive integer \<open>N\<close>, the new
  remaining amount is \<open>remainingMl - N\<close> clamped to the range from 0 to the daily goal, and
  the new completion flag is the old one or "the new remaining amount is 0". With 100 ml
  remaining, the input \<^verbatim>\<open>"500"\<close> leaves 0 ml and sets the flag.
\<close>

theorem intake_positive:
  "(parseInt rawInput = Some N \<and> 0 < N \<longrightarrow>
      remainingMl (applyIntake s rawInput) = clamp (remainingMl s - N) 0 DAILY_GOAL_ML
      \<and> completedToday (applyIntake s rawInput)
          = (completedToday s \<or> remainingMl (applyIntake s rawInput) = 0))
   \<and> (remainingMl s = 100 \<longrightarrow>
      remainingMl (applyIntake s (js ''500'')) = 0
      \<and> completedToday (applyIntake s (js ''500'')) = True)"
proof -
  have "parseIntSafe (js ''500'') = 500"
    by (simp add: parseIntSafe_def parseInt_def js_def StrWhiteSpaceChar_def isDigit_def
        mathInt_def)
  then have "remainingMl s = 100 \<longrightarrow>
      remainingMl (applyIntake s (js ''500'')) = 0
      \<and> completedToday (applyIntake s (js ''500'')) = True"
    by (simp add: applyIntake_unfold clamp_def DAILY_GOAL_ML_def)
  moreover have "parseInt rawInput = Some N \<and> 0 < N \<longrightarrow>
      remainingMl (applyIntake s rawInput) = clamp (remainingMl s - N) 0 DAILY_GOAL_ML
      \<and> completedToday (applyIntake s rawInput)
          = (completedToday s \<or> remainingMl (applyIntake s rawInput) = 0)"
    by (auto simp: applyIntake_unfold parseIntSafe_def)
  ultimately show ?thesis by blast
qed

theorem intake_positive_witness:
  "parseInt (js ''750'') = Some 750 \<and> (0::int) < 750
   \<and> applyIntake \<lparr>remainingMl = 2000, streak = 2, lastDate = js ''2024-01-01'',
        completedToday = False\<rparr> (js ''750'')
     = \<lparr>remainingMl = 1250, streak = 2, lastDate = js ''2024-01-01'', completedToday = False\<rparr>
   \<and> applyIntake \<lparr>remainingMl = 100, streak = 2, lastDate = js ''2024-01-01'',
        completedToday = False\<rparr> (js ''500'')
     = \<lparr>remainingMl = 0, streak = 2, lastDate = js ''2024-01-01'', completedToday = True\<rparr>"
  using intake_positive [of "js ''750''" 750
      "\<lparr>remainingMl = 2000, streak = 2, lastDate = js ''2024-01-01'', completedToday = False\<rparr>"]
    intake_positive [of "js ''500''" 500
      "\<lparr>remainingMl = 100, streak = 2, lastDate = js ''2024-01-01'', completedToday = False\<rparr>"]
  by (simp add: js_def DAILY_GOAL_ML_def applyIntake_unfold parseIntSafe_def parseInt_def
      StrWhiteSpaceChar_def isDigit_def mathInt_def clamp_def)

text \<open>
  C4. An input text that does not parse, or that parses to zero or less, changes nothing:
  the intake returns the state it was given, with all four fields, and it does return (the
  function is total, no error value exists). \<^verbatim>\<open>"-5"\<close> and \<^verbatim>\<open>"abc"\<close> are such inputs.
\<close>

theorem intake_noop:
  "((parseInt rawInput = None \<or> (\<exists>n. parseInt rawInput = Some n \<and> n \<le> 0))
      \<longrightarrow> applyIntake s rawInput = s)
   \<and> applyIntake s (js ''-5'') = s
   \<and> applyIntake s (js ''abc'') = s"
proof -
  have "parseIntSafe (js ''-5'') = - 5"
    by (simp add: parseIntSafe_def parseInt_def js_def StrWhiteSpaceChar_def isDigit_def
        mathInt_def)
  moreover have "parseIntSafe (js ''abc'') = 0"
    by (simp add: parseIntSafe_def parseInt_def js_def StrWhiteSpaceChar_def isDigit_def)
  ultimately show ?thesis
    by (auto simp: applyIntake_unfold parseIntSafe_def)
qed

theorem intake_noop_witness:
  "parseInt (js ''0'') = Some 0
   \<and> applyIntake \<lparr>remainingMl = 700, streak = 2, lastDate = js ''2024-01-01'',
        completedToday = False\<rparr> (js ''0'')
     = \<lparr>remainingMl = 700, streak = 2, lastDate = js ''2024-01-01'', completedToday = False\<rparr>
   \<and> parseInt (js ''ml'') = None
   \<and> applyIntake \<lparr>remainingMl = 700, streak = 2, lastDate = js ''2024-01-01'',
        completedToday = False\<rparr> (js ''ml'')
     = \<lparr>remainingMl = 700, streak = 2, lastDate = js ''2024-01-01'', completedToday = False\<rparr>"
  using intake_noop [of "js ''0''"
      "\<lparr>remainingMl = 700, streak = 2, lastDate = js ''2024-01-01'', completedToday = False\<rparr>"]
   intake_noop [of "js ''ml''"
      "\<lparr>remainingMl = 700, streak = 2, lastDate = js ''2024-01-01'', completedToday = False\<rparr>"]
  by (simp add: parseInt_def js_def StrWhiteSpaceChar_def isDigit_def mathInt_def)

lemma not_white_sign_digit:
  "c = 43 \<or> c = 45 \<or> isDigit c \<Longrightarrow> \<not> StrWhiteSpaceChar c"
  by (auto simp: StrWhiteSpaceChar_def isDigit_def)

lemma not_digit_sign: "\<not> isDigit 43" "\<not> isDigit 45"
  by (simp_all add: isDigit_def)

lemma takeWhile_digits:
  assumes "\<forall>c\<in>set ds. isDigit c" and "rest = [] \<or> \<not> isDigit (hd rest)"
  shows "takeWhile isDigit (ds @ rest) = ds"
proof -
  have "takeWhile isDigit rest = []"
    using assms(2) by (cases rest) auto
  with assms(1) show ?thesis by (simp add: takeWhile_append2)
qed

lemma trim_prefix:
  assumes "\<forall>c\<in>set ws. StrWhiteSpaceChar c" and "\<not> StrWhiteSpaceChar c"
  shows "dropWhile StrWhiteSpaceChar (ws @ c # cs) = c # cs"
  using assms by (simp add: dropWhile_append2)

lemma parseInt_shape:
  assumes ws: "\<forall>c\<in>set ws. StrWhiteSpaceChar c"
    and sg: "sg = [] \<or> sg = [43] \<or> sg = [45]"
    and ne: "ds \<noteq> []"
    and ds: "\<forall>c\<in>set ds. isDigit c"
    and rest: "rest = [] \<or> \<not> isDigit (hd rest)"
  shows "parseInt (ws @ sg @ ds @ rest) = Some ((if sg = [45] then - 1 else 1) * mathInt ds)"
proof -
  obtain d ds' where dd: "ds = d # ds'" using ne by (cases ds) auto
  have d: "isDigit d" using ds dd by simp
  have tw: "takeWhile isDigit (ds @ rest) = ds" using ds rest by (rule takeWhile_digits)
  from sg consider "sg = []" | "sg = [43]" | "sg = [45]" by blast
  then show ?thesis
  proof cases
    case 1
    have "dropWhile StrWhiteSpaceChar (ws @ d # ds' @ rest) = d # ds' @ rest"
      using ws not_white_sign_digit [of d] d by (simp add: trim_prefix)
    moreover have "d \<noteq> 43 \<and> d \<noteq> 45" using d by (auto simp: isDigit_def)
    ultimately show ?thesis
      using 1 tw ne by (simp add: parseInt_def dd)
  next
    case 2
    have "dropWhile StrWhiteSpaceChar (ws @ 43 # ds @ rest) = 43 # ds @ rest"
      using ws not_white_sign_digit [of 43] by (simp add: trim_prefix)
    then show ?thesis
      using 2 tw ne by (simp add: parseInt_def)
  next
    case 3
    have "dropWhile StrWhiteSpaceChar (ws @ 45 # ds @ rest) = 45 # ds @ rest"
      using ws not_white_sign_digit [of 45] by (simp add: trim_prefix)
    then show ?thesis
      using 3 tw ne by (simp add: parseInt_def)
  qed
qed

text \<open>
  C10. The input text goes through \<^verbatim>\<open>parseInt\<close>: optional white space, an optional sign,
  a run of digits, and then anything that does not start with a digit. The trailing part is
  ignored: the text parses to the leading integer, the intake is the one of the text
  without the trailing part, and a positive amount is subtracted as usual. So
  \<^verbatim>\<open>"250ml"\<close> is an intake of 250 and \<^verbatim>\<open>"12abc"\<close> parses to 12.
\<close>

theorem parseInt_ignores_trailing:
  assumes "\<forall>c\<in>set ws. StrWhiteSpaceChar c"
    and "sg = [] \<or> sg = [43] \<or> sg = [45]"
    and "ds \<noteq> []"
    and "\<forall>c\<in>set ds. isDigit c"
    and "rest = [] \<or> \<not> isDigit (hd rest)"
  shows "parseInt (ws @ sg @ ds @ rest) = Some ((if sg = [45] then - 1 else 1) * mathInt ds)
    \<and> applyIntake s (ws @ sg @ ds @ rest) = applyIntake s (ws @ sg @ ds)
    \<and> (sg \<noteq> [45] \<and> 0 < mathInt ds \<longrightarrow>
         remainingMl (applyIntake s (ws @ sg @ ds @ rest))
           = clamp (remainingMl s - mathInt ds) 0 DAILY_GOAL_ML)"
proof -
  have a: "parseInt (ws @ sg @ ds @ rest) = Some ((if sg = [45] then - 1 else 1) * mathInt ds)"
    using assms by (rule parseInt_shape)
  have "parseInt (ws @ sg @ ds @ []) = Some ((if sg = [45] then - 1 else 1) * mathInt ds)"
    using assms(1-4) by (rule parseInt_shape) simp
  then have b: "parseInt (ws @ sg @ ds) = Some ((if sg = [45] then - 1 else 1) * mathInt ds)"
    by simp
  have c: "parseIntSafe (ws @ sg @ ds @ rest) = parseIntSafe (ws @ sg @ ds)"
    unfolding parseIntSafe_def a b ..
  have d: "sg \<noteq> [45] \<Longrightarrow> parseIntSafe (ws @ sg @ ds @ rest) = mathInt ds"
    unfolding parseIntSafe_def a by simp
  have e: "applyIntake s (ws @ sg @ ds @ rest) = applyIntake s (ws @ sg @ ds)"
    unfolding applyIntake_unfold c ..
  have f: "sg \<noteq> [45] \<and> 0 < mathInt ds \<longrightarrow>
         remainingMl (applyIntake s (ws @ sg @ ds @ rest))
           = clamp (remainingMl s - mathInt ds) 0 DAILY_GOAL_ML"
    by (simp add: applyIntake_unfold d)
  from a e f show ?thesis by blast
qed

theorem parseInt_ignores_trailing_witness:
  "parseInt (js ''250ml'') = Some 250
   \<and> applyIntake \<lparr>remainingMl = 2000, streak = 0, lastDate = js ''2024-01-01'',
        completedToday = False\<rparr> (js ''250ml'')
     = applyIntake \<lparr>remainingMl = 2000, streak = 0, lastDate = js ''2024-01-01'',
        completedToday = False\<rparr> (js ''250'')
   \<and> remainingMl (applyIntake \<lparr>remainingMl = 2000, streak = 0, lastDate = js ''2024-01-01'',
        completedToday = False\<rparr> (js ''250ml'')) = 1750
   \<and> parseInt (js ''12abc'') = Some 12"
  using parseInt_ignores_trailing [of "[]" "[]" "js ''250''" "js ''ml''"
      "\<lparr>remainingMl = 2000, streak = 0, lastDate = js ''2024-01-01'', completedToday = False\<rparr>"]
    parseInt_ignores_trailing [of "[]" "[]" "js ''12''" "js ''abc''"
      "\<lparr>remainingMl = 2000, streak = 0, lastDate = js ''2024-01-01'', completedToday = False\<rparr>"]
  by (auto simp: js_def isDigit_def mathInt_def clamp_def DAILY_GOAL_ML_def)

subsection \<open>Loading\<close>

lemma hydrate_js_object:
  "hydrateStateForToday_js today (object_of s) = Inr (object_of (rollover s today))"
  by (simp add: hydrateStateForToday_js_def object_of_def rollover_unfold js_def)

lemma set_object: "setStateFromStorage (object_of s) = Inr (values_of s)"
  by (simp add: setStateFromStorage_def object_of_def values_of_def js_def)

lemma hydrate_js_today:
  "map_of ps (js ''lastDate'') = Some (JStr today) \<Longrightarrow>
   hydrateStateForToday_js today (JObj ps) = Inr (JObj ps)"
  by (simp add: hydrateStateForToday_js_def)

lemma fresh_is_rollover:
  "rollover (buildInitialState today) today = buildInitialState today"
  by (simp add: rollover_unfold buildInitialState_def)

lemma loadState_total: "\<exists>loaded. loadState today getItem = Inr loaded"
  by (auto simp: loadState_def set_object split: sum.splits)

lemma loadState_no_payload:
  "isl getItem \<or> getItem = Inr None \<or> getItem = Inr (Some EmptyText)
     \<or> getItem = Inr (Some MalformedText) \<Longrightarrow>
   loadState today getItem = Inr (values_of (buildInitialState today))"
  by (auto simp: loadState_def hydrate_js_object set_object fresh_is_rollover isl_def)

lemma hydrate_js_falsy:
  assumes "getProp v (js ''lastDate'') \<noteq> Inr (JStr today)"
    and "\<forall>x. getProp v (js ''completedToday'') = Inr x \<longrightarrow> \<not> ToBoolean x"
  shows "hydrateStateForToday_js today v = Inl TypeError
    \<or> hydrateStateForToday_js today v = Inr (object_of (buildInitialState today))"
proof (cases "getProp v (js ''lastDate'')")
  case (Inl e)
  then have "v = JUndefined \<or> v = JNull" by (cases v) simp_all
  then show ?thesis by (auto simp: hydrateStateForToday_js_def)
next
  case (Inr d)
  then obtain x where x: "getProp v (js ''completedToday'') = Inr x" by (cases v) simp_all
  with assms(2) have "\<not> ToBoolean x" by simp
  with Inr x assms(1) show ?thesis
    by (simp add: hydrateStateForToday_js_def object_of_def buildInitialState_def)
qed

lemma loadState_falsy:
  assumes "getItem = Inr (Some (JsonText v))"
    and "getProp v (js ''lastDate'') \<noteq> Inr (JStr today)"
    and "\<forall>x. getProp v (js ''completedToday'') = Inr x \<longrightarrow> \<not> ToBoolean x"
  shows "loadState today getItem = Inr (values_of (buildInitialState today))"
  using hydrate_js_falsy [OF assms(2,3)] assms(1)
  by (auto simp: loadState_def set_object)

lemma loadState_shaped:
  "getItem = Inr (Some (JsonText (object_of s))) \<Longrightarrow>
   loadState today getItem = Inr (values_of (rollover s today))"
  by (simp add: loadState_def hydrate_js_object set_object)

lemma loadState_today:
  "getItem = Inr (Some (JsonText (JObj ps))) \<Longrightarrow>
   map_of ps (js ''lastDate'') = Some (JStr today) \<Longrightarrow>
   loadState today getItem = setStateFromStorage (JObj ps)"
  by (simp add: loadState_def hydrate_js_today setStateFromStorage_def)

lemma loadState_truthy:
  assumes "getItem = Inr (Some (JsonText (JObj ps)))"
    and "map_of ps (js ''lastDate'') \<noteq> Some (JStr today)"
    and "map_of ps (js ''completedToday'') = Some x" and "ToBoolean x"
    and "getProp (JObj ps) (js ''streak'') = Inr k" and "plus_one k = Inr k'"
  shows "loadState today getItem =
    Inr \<lparr>remainingMl_value = JNum DAILY_GOAL_ML, streak_value = k',
         lastDate_value = JStr today, completedToday_value = JBool False\<rparr>"
proof -
  have "getProp (JObj ps) (js ''lastDate'') \<noteq> Inr (JStr today)"
    using assms(2) by (auto split: option.splits)
  then have "hydrateStateForToday_js today (JObj ps) =
    Inr (JObj [(js ''remainingMl'', JNum DAILY_GOAL_ML), (js ''streak'', k'),
               (js ''lastDate'', JStr today), (js ''completedToday'', JBool False)])"
    using assms(3-6) by (simp add: hydrateStateForToday_js_def split: sum.splits)
  then show ?thesis
    using assms(1) by (simp add: loadState_def setStateFromStorage_def js_def)
qed

text \<open>
  C8 as stated fails. The stored text is the JSON object whose only property is
  \<^verbatim>\<open>lastDate\<close>, with today's key: it parses, it has not the shape of a tracked state, and
  \<^verbatim>\<open>hydrateStateForToday\<close> returns it as it is because the date matches. The component then
  holds \<^verbatim>\<open>undefined\<close> in three of its four values, not the fresh state.
\<close>

theorem loadState_unvalidated_counterexample:
  "loadState (js ''2024-01-02'')
       (Inr (Some (JsonText (JObj [(js ''lastDate'', JStr (js ''2024-01-02''))]))))
     = Inr \<lparr>remainingMl_value = JUndefined, streak_value = JUndefined,
            lastDate_value = JStr (js ''2024-01-02''), completedToday_value = JUndefined\<rparr>
   \<and> loadState (js ''2024-01-02'')
       (Inr (Some (JsonText (JObj [(js ''lastDate'', JStr (js ''2024-01-02''))]))))
     \<noteq> Inr (values_of (rollover (buildInitialState (js ''2024-01-02'')) (js ''2024-01-02'')))"
  by (simp add: loadState_def hydrateStateForToday_js_def setStateFromStorage_def js_def
      values_of_def rollover_unfold buildInitialState_def)

text \<open>
  C8, amended. Loading never throws. The component holds the freshly initialized state
  (which is its own rollover) when the read fails, when nothing or the empty text is
  stored, when \<^verbatim>\<open>JSON.parse\<close> throws, and when the parsed value has a \<^verbatim>\<open>lastDate\<close> other than
  today's key and no truthy \<^verbatim>\<open>completedToday\<close> (\<^verbatim>\<open>null\<close>, numbers, strings, arrays and the
  empty object are such values). A payload with the four properties of a tracked state
  gives the rollover of that state. A parsed object whose \<^verbatim>\<open>lastDate\<close> is today's key is
  not validated: its properties are taken as they are.
\<close>

theorem loadState_fallback:
  "(\<exists>loaded. loadState today getItem = Inr loaded)
   \<and> (isl getItem \<or> getItem = Inr None \<or> getItem = Inr (Some EmptyText)
        \<or> getItem = Inr (Some MalformedText) \<longrightarrow>
        loadState today getItem
          = Inr (values_of (rollover (buildInitialState today) today)))
   \<and> (getItem = Inr (Some (JsonText v))
        \<and> getProp v (js ''lastDate'') \<noteq> Inr (JStr today)
        \<and> (\<forall>x. getProp v (js ''completedToday'') = Inr x \<longrightarrow> \<not> ToBoolean x) \<longrightarrow>
        loadState today getItem
          = Inr (values_of (rollover (buildInitialState today) today)))
   \<and> (getItem = Inr (Some (JsonText (object_of s))) \<longrightarrow>
        loadState today getItem = Inr (values_of (rollover s today)))
   \<and> (getItem = Inr (Some (JsonText (JObj ps)))
        \<and> map_of ps (js ''lastDate'') = Some (JStr today) \<longrightarrow>
        loadState today getItem = setStateFromStorage (JObj ps))"
proof -
  note loadState_total [of today getItem]
  moreover have "isl getItem \<or> getItem = Inr None \<or> getItem = Inr (Some EmptyText)
        \<or> getItem = Inr (Some MalformedText) \<longrightarrow>
        loadState today getItem
          = Inr (values_of (rollover (buildInitialState today) today))"
    using loadState_no_payload [of getItem today] by (simp add: fresh_is_rollover)
  moreover have "getItem = Inr (Some (JsonText v))
        \<and> getProp v (js ''lastDate'') \<noteq> Inr (JStr today)
        \<and> (\<forall>x. getProp v (js ''completedToday'') = Inr x \<longrightarrow> \<not> ToBoolean x) \<longrightarrow>
        loadState today getItem
          = Inr (values_of (rollover (buildInitialState today) today))"
    using loadState_falsy [of getItem v today] by (simp add: fresh_is_rollover)
  moreover have "getItem = Inr (Some (JsonText (object_of s))) \<longrightarrow>
        loadState today getItem = Inr (values_of (rollover s today))"
    using loadState_shaped [of getItem s today] by simp
  moreover have "getItem = Inr (Some (JsonText (JObj ps)))
        \<and> map_of ps (js ''lastDate'') = Some (JStr today) \<longrightarrow>
        loadState today getItem = setStateFromStorage (JObj ps)"
    using loadState_today [of getItem ps today] by simp
  ultimately show ?thesis by blast
qed

theorem loadState_fallback_witness:
  "loadState (js ''2024-01-02'') (Inr (Some MalformedText))
     = Inr (values_of (rollover (buildInitialState (js ''2024-01-02'')) (js ''2024-01-02'')))
   \<and> loadState (js ''2024-01-02'') (Inr (Some (JsonText (JArr []))))
     = Inr (values_of (rollover (buildInitialState (js ''2024-01-02'')) (js ''2024-01-02'')))
   \<and> loadState (js ''2024-01-02'')
       (Inr (Some (JsonText (object_of \<lparr>remainingMl = 0, streak = 3,
          lastDate = js ''2024-01-01'', completedToday = True\<rparr>))))
     = Inr \<lparr>remainingMl_value = JNum 2000, streak_value = JNum 4,
            lastDate_value = JStr (js ''2024-01-02''), completedToday_value = JBool False\<rparr>
   \<and> loadState (js ''2024-01-02'')
       (Inr (Some (JsonText (JObj [(js ''lastDate'', JStr (js ''2024-01-02'')),
          (js ''remainingMl'', JNum 5000)]))))
     = Inr \<lparr>remainingMl_value = JNum 5000, streak_value = JUndefined,
            lastDate_value = JStr (js ''2024-01-02''), completedToday_value = JUndefined\<rparr>"
  using loadState_fallback [of "js ''2024-01-02''" "Inr (Some MalformedText)"]
    loadState_fallback [of "js ''2024-01-02''" "Inr (Some (JsonText (JArr [])))" "JArr []"]
    loadState_fallback [of "js ''2024-01-02''"
      "Inr (Some (JsonText (object_of \<lparr>remainingMl = 0, streak = 3,
          lastDate = js ''2024-01-01'', completedToday = True\<rparr>)))" _
      "\<lparr>remainingMl = 0, streak = 3, lastDate = js ''2024-01-01'', completedToday = True\<rparr>"]
    loadState_fallback [of "js ''2024-01-02''"
      "Inr (Some (JsonText (JObj [(js ''lastDate'', JStr (js ''2024-01-02'')),
          (js ''remainingMl'', JNum 5000)])))" _ _
      "[(js ''lastDate'', JStr (js ''2024-01-02'')), (js ''remainingMl'', JNum 5000)]"]
  by (simp add: js_def values_of_def rollover_unfold DAILY_GOAL_ML_def setStateFromStorage_def)

end
